theory Spec2Isabelle
  imports Main "HOL-Library.Word"
begin

unbundle bit_operations_syntax

section \<open>Strings of the host language\<close>

text \<open>
  A JavaScript string is modelled as a \<^typ>\<open>string\<close>: a list of code units, here the
  code units below 256. \<open>undefined\<close> is \<open>None\<close> of an option type.
\<close>

text \<open>\<open>s.split(c)\<close> for a one-character separator: one segment more than there are
  separators, empty segments kept; \<open>"".split(".")\<close> is \<open>[""]\<close>.\<close>

fun split_on :: "char \<Rightarrow> string \<Rightarrow> string list" where
  "split_on c [] = [[]]"
| "split_on c (x # xs) =
     (if x = c then [] # split_on c xs
      else (case split_on c xs of
              [] \<Rightarrow> [[x]]
            | s # ss \<Rightarrow> (x # s) # ss))"

text \<open>\<open>s.startsWith(p)\<close> and \<open>s.substring(n)\<close>.\<close>

definition startsWith :: "string \<Rightarrow> string \<Rightarrow> bool" where
  "startsWith s p = (take (length p) s = p)"

definition substring_from :: "nat \<Rightarrow> string \<Rightarrow> string" where
  "substring_from n s = drop n s"

text \<open>Truthiness of an optional string: \<open>undefined\<close> and \<open>""\<close> are falsy.\<close>

definition truthy :: "string option \<Rightarrow> bool" where
  "truthy t = (case t of None \<Rightarrow> False | Some s \<Rightarrow> s \<noteq> [])"

section \<open>Values of the host language\<close>

text \<open>
  The values a parsed JSON text or a property read can give. Numbers are integers here:
  no result of the program depends on arithmetic with them.
\<close>

datatype jsval =
    Undefined
  | Null
  | Bool bool
  | Num int
  | Str string
  | Arr "jsval list"
  | Obj "(string \<times> jsval) list"

text \<open>
  Reading a property \<open>v.k\<close>. On \<open>null\<close> and \<open>undefined\<close> the read throws a TypeError
  (\<open>None\<close>); on an object it is the own property or \<open>undefined\<close>; on every other value
  the keys read by this program (\<open>aud\<close>, \<open>id\<close>, \<open>email\<close>, ...) are \<open>undefined\<close>.
\<close>

fun get_prop :: "jsval \<Rightarrow> string \<Rightarrow> jsval option" where
  "get_prop Undefined k = None"
| "get_prop Null k = None"
| "get_prop (Obj kvs) k = Some (case map_of kvs k of None \<Rightarrow> Undefined | Some v \<Rightarrow> v)"
| "get_prop v k = Some Undefined"

text \<open>\<open>Array.isArray(v) && v.includes(x)\<close> for a string \<open>x\<close>.\<close>

fun array_includes :: "jsval \<Rightarrow> string \<Rightarrow> bool" where
  "array_includes (Arr vs) x = (Str x \<in> set vs)"
| "array_includes v x = False"

section \<open>Platform functions\<close>

subsection \<open>The URL constructor\<close>

text \<open>
  A parsed URL, by the attributes the program and the \<open>origin\<close> getter read:
  \<open>protocol\<close> is the scheme followed by a colon, \<open>host\<close> is the host name followed by
  a colon and the port when the port is not the scheme's default.
\<close>

record URL =
  protocol :: string
  host :: string
  pathname :: string

text \<open>
  \<open>new URL(s)\<close> is a function of the platform, taken as a parameter of type
  \<^typ>\<open>string \<Rightarrow> URL option\<close>; \<open>None\<close> is the TypeError it throws on a string that
  does not parse.
\<close>

type_synonym url_parser = "string \<Rightarrow> URL option"

text \<open>
  The \<open>origin\<close> getter: the tuple origin \<open>protocol // host\<close> for the schemes http,
  https, ws, wss and ftp; for a blob URL the origin of the URL in its path when that is
  an http or https URL; the string \<open>null\<close> (an opaque origin) for every other URL.
\<close>

definition tuple_schemes :: "string list" where
  "tuple_schemes = [''http:'', ''https:'', ''ws:'', ''wss:'', ''ftp:'']"

definition origin :: "url_parser \<Rightarrow> URL \<Rightarrow> string" where
  "origin parse u =
     (if protocol u \<in> set tuple_schemes then protocol u @ ''//'' @ host u
      else if protocol u = ''blob:'' \<and> pathname u \<noteq> [] then
        (case parse (pathname u) of
           None \<Rightarrow> ''null''
         | Some v \<Rightarrow>
             if protocol v = ''http:'' \<or> protocol v = ''https:''
             then protocol v @ ''//'' @ host v else ''null'')
      else ''null'')"

subsection \<open>atob\<close>

text \<open>
  \<open>atob(s)\<close>: the forgiving base64 decoding. ASCII whitespace is removed, one or two
  padding characters are removed when the length is a multiple of four, a length of
  one modulo four or a character outside the alphabet throws (\<open>None\<close>).
\<close>

definition ascii_whitespace :: "char \<Rightarrow> bool" where
  "ascii_whitespace c = (of_char c \<in> {9::nat, 10, 12, 13, 32})"

definition b64_val :: "char \<Rightarrow> nat option" where
  "b64_val c =
     (let n = (of_char c :: nat) in
      if 65 \<le> n \<and> n \<le> 90 then Some (n - 65)
      else if 97 \<le> n \<and> n \<le> 122 then Some (n - 71)
      else if 48 \<le> n \<and> n \<le> 57 then Some (n + 4)
      else if n = 43 then Some 62
      else if n = 47 then Some 63
      else None)"

fun b64_groups :: "nat list \<Rightarrow> nat list" where
  "b64_groups (a # b # c # d # rest) =
     [a * 4 + b div 16, (b mod 16) * 16 + c div 4, (c mod 4) * 64 + d] @ b64_groups rest"
| "b64_groups [a, b, c] = [a * 4 + b div 16, (b mod 16) * 16 + c div 4]"
| "b64_groups [a, b] = [a * 4 + b div 16]"
| "b64_groups _ = []"

definition strip_padding :: "string \<Rightarrow> string" where
  "strip_padding s =
     (if length s mod 4 = 0 \<and> s \<noteq> [] \<and> last s = CHR ''='' then
        (let s1 = butlast s in
         if s1 \<noteq> [] \<and> last s1 = CHR ''='' then butlast s1 else s1)
      else s)"

definition atob :: "string \<Rightarrow> string option" where
  "atob s =
     (let d = strip_padding (filter (\<lambda>c. \<not> ascii_whitespace c) s) in
      if length d mod 4 = 1 then None
      else (case those (map b64_val d) of
              None \<Rightarrow> None
            | Some vs \<Rightarrow> Some (map char_of (b64_groups vs))))"

subsection \<open>JSON.parse\<close>

text \<open>
  \<open>JSON.parse(s)\<close> is a function of the platform, taken as a parameter; \<open>None\<close> is the
  SyntaxError it throws.
\<close>

type_synonym json_parser = "string \<Rightarrow> jsval option"

section \<open>Resource parameter validation\<close>

text \<open>The \<open>try\<close> block returns the comparison of the two origins; the \<open>catch\<close>
  block returns \<open>false\<close>.\<close>

definition validateResourceParameter :: "url_parser \<Rightarrow> string \<Rightarrow> string \<Rightarrow> bool" where
  "validateResourceParameter parse resource serverBaseUrl =
     (case parse resource of
        None \<Rightarrow> False
      | Some resourceUrl \<Rightarrow>
          (case parse serverBaseUrl of
             None \<Rightarrow> False
           | Some serverUrl \<Rightarrow> origin parse resourceUrl = origin parse serverUrl))"

section \<open>Token audience validation\<close>

definition validateTokenAudience :: "json_parser \<Rightarrow> string \<Rightarrow> string \<Rightarrow> bool" where
  "validateTokenAudience parse token expectedAudience =
     (let parts = split_on CHR ''.'' token in
      if length parts = 3 then
        (case atob (parts ! 1) of
           None \<Rightarrow> False
         | Some decoded \<Rightarrow>
             (case parse decoded of
                None \<Rightarrow> False
              | Some payload \<Rightarrow>
                  (case get_prop payload ''aud'' of
                     None \<Rightarrow> False
                   | Some aud \<Rightarrow>
                       aud = Str expectedAudience \<or> array_includes aud expectedAudience)))
      else True)"

section \<open>Hashing\<close>

text \<open>
  \<open>crypto.createHash("sha256")\<close>, \<open>update\<close> with a string (encoded as UTF-8) and
  \<open>digest("base64url")\<close> (the URL-safe alphabet, no padding), with SHA-256 as in
  FIPS 180-4 on 32-bit words.
\<close>

type_synonym byte = "8 word"
type_synonym u32 = "32 word"

definition utf8_encode :: "string \<Rightarrow> byte list" where
  "utf8_encode s =
     concat (map (\<lambda>c. let n = (of_char c :: nat) in
                      if n < 128 then [of_nat n]
                      else [of_nat (192 + n div 64), of_nat (128 + n mod 64)]) s)"

definition sha256_K :: "u32 list" where
  "sha256_K =
    [1116352408, 1899447441, 3049323471, 3921009573, 961987163, 1508970993, 2453635748, 2870763221,
     3624381080, 310598401, 607225278, 1426881987, 1925078388, 2162078206, 2614888103, 3248222580,
     3835390401, 4022224774, 264347078, 604807628, 770255983, 1249150122, 1555081692, 1996064986,
     2554220882, 2821834349, 2952996808, 3210313671, 3336571891, 3584528711, 113926993, 338241895,
     666307205, 773529912, 1294757372, 1396182291, 1695183700, 1986661051, 2177026350, 2456956037,
     2730485921, 2820302411, 3259730800, 3345764771, 3516065817, 3600352804, 4094571909, 275423344,
     430227734, 506948616, 659060556, 883997877, 958139571, 1322822218, 1537002063, 1747873779,
     1955562222, 2024104815, 2227730452, 2361852424, 2428436474, 2756734187, 3204031479, 3329325298]"

type_synonym sha_state = "u32 \<times> u32 \<times> u32 \<times> u32 \<times> u32 \<times> u32 \<times> u32 \<times> u32"

definition sha256_H0 :: sha_state where
  "sha256_H0 =
    (1779033703, 3144134277, 1013904242, 2773480762, 1359893119, 2600822924, 528734635,
     1541459225)"

definition rotr :: "nat \<Rightarrow> u32 \<Rightarrow> u32" where
  "rotr n x = (drop_bit n x) OR (push_bit (32 - n) x)"

definition big_sigma0 :: "u32 \<Rightarrow> u32" where
  "big_sigma0 x = rotr 2 x XOR rotr 13 x XOR rotr 22 x"

definition big_sigma1 :: "u32 \<Rightarrow> u32" where
  "big_sigma1 x = rotr 6 x XOR rotr 11 x XOR rotr 25 x"

definition small_sigma0 :: "u32 \<Rightarrow> u32" where
  "small_sigma0 x = rotr 7 x XOR rotr 18 x XOR drop_bit 3 x"

definition small_sigma1 :: "u32 \<Rightarrow> u32" where
  "small_sigma1 x = rotr 17 x XOR rotr 19 x XOR drop_bit 10 x"

definition ch :: "u32 \<Rightarrow> u32 \<Rightarrow> u32 \<Rightarrow> u32" where
  "ch x y z = (x AND y) XOR (NOT x AND z)"

definition maj :: "u32 \<Rightarrow> u32 \<Rightarrow> u32 \<Rightarrow> u32" where
  "maj x y z = (x AND y) XOR (x AND z) XOR (y AND z)"

text \<open>Padding: the byte 0x80, zero bytes up to 56 modulo 64, the bit length in 64 bits.\<close>

definition length_bytes :: "64 word \<Rightarrow> byte list" where
  "length_bytes n = map (\<lambda>i. ucast (drop_bit (56 - 8 * i) n)) [0..<8]"

definition sha256_pad :: "byte list \<Rightarrow> byte list" where
  "sha256_pad m =
     m @ [128] @ replicate ((119 - length m mod 64) mod 64) 0
       @ length_bytes (8 * of_nat (length m))"

fun be_words :: "byte list \<Rightarrow> u32 list" where
  "be_words (a # b # c # d # rest) =
     (push_bit 24 (ucast a) OR push_bit 16 (ucast b) OR push_bit 8 (ucast c) OR ucast d)
       # be_words rest"
| "be_words _ = []"

fun chunks :: "nat \<Rightarrow> 'a list \<Rightarrow> 'a list list" where
  "chunks n [] = []"
| "chunks n xs = (if n = 0 then [xs] else take n xs # chunks n (drop n xs))"

fun schedule :: "nat \<Rightarrow> u32 list \<Rightarrow> u32 list" where
  "schedule 0 w = w"
| "schedule (Suc k) w =
     (let t = length w in
      schedule k (w @ [small_sigma1 (w ! (t - 2)) + w ! (t - 7)
                        + small_sigma0 (w ! (t - 15)) + w ! (t - 16)]))"

fun sha256_round :: "sha_state \<Rightarrow> u32 \<times> u32 \<Rightarrow> sha_state" where
  "sha256_round (a, b, c, d, e, f, g, h) (k, w) =
     (let t1 = h + big_sigma1 e + ch e f g + k + w;
          t2 = big_sigma0 a + maj a b c
      in (t1 + t2, a, b, c, d + t1, e, f, g))"

fun add_state :: "sha_state \<Rightarrow> sha_state \<Rightarrow> sha_state" where
  "add_state (a, b, c, d, e, f, g, h) (a', b', c', d', e', f', g', h') =
     (a + a', b + b', c + c', d + d', e + e', f + f', g + g', h + h')"

definition sha256_block :: "sha_state \<Rightarrow> byte list \<Rightarrow> sha_state" where
  "sha256_block s blk =
     add_state s (foldl sha256_round s (zip sha256_K (schedule 48 (be_words blk))))"

definition word_bytes :: "u32 \<Rightarrow> byte list" where
  "word_bytes w = [ucast (drop_bit 24 w), ucast (drop_bit 16 w), ucast (drop_bit 8 w), ucast w]"

fun state_bytes :: "sha_state \<Rightarrow> byte list" where
  "state_bytes (a, b, c, d, e, f, g, h) = concat (map word_bytes [a, b, c, d, e, f, g, h])"

definition sha256 :: "byte list \<Rightarrow> byte list" where
  "sha256 m = state_bytes (foldl sha256_block sha256_H0 (chunks 64 (sha256_pad m)))"

definition b64url_alphabet :: string where
  "b64url_alphabet = ''ABCDEFGHIJKLMNOPQRSTUVWXYZabcdefghijklmnopqrstuvwxyz0123456789-_''"

definition b64url_char :: "nat \<Rightarrow> char" where
  "b64url_char n = b64url_alphabet ! (n mod 64)"

fun base64url :: "byte list \<Rightarrow> string" where
  "base64url (a # b # c # rest) =
     (let x = unat a; y = unat b; z = unat c in
      [b64url_char (x div 4), b64url_char ((x mod 4) * 16 + y div 16),
       b64url_char ((y mod 16) * 4 + z div 64), b64url_char (z mod 64)] @ base64url rest)"
| "base64url [a, b] =
     (let x = unat a; y = unat b in
      [b64url_char (x div 4), b64url_char ((x mod 4) * 16 + y div 16),
       b64url_char ((y mod 16) * 4)])"
| "base64url [a] = (let x = unat a in [b64url_char (x div 4), b64url_char ((x mod 4) * 16)])"
| "base64url [] = []"




section \<open>PKCE verification\<close>

record hash =
  pending :: "byte list"

definition createHash_sha256 :: hash where
  "createHash_sha256 = \<lparr>pending = []\<rparr>"

definition hash_update :: "hash \<Rightarrow> string \<Rightarrow> hash" where
  "hash_update h s = h\<lparr>pending := pending h @ utf8_encode s\<rparr>"

definition digest_base64url :: "hash \<Rightarrow> string" where
  "digest_base64url h = base64url (sha256 (pending h))"

definition verifyPKCE :: "string \<Rightarrow> string \<Rightarrow> bool" where
  "verifyPKCE codeChallenge codeVerifier =
     (let hash = digest_base64url (hash_update createHash_sha256 codeVerifier)
      in codeChallenge = hash)"

section \<open>Requests, configuration and the identity provider\<close>

text \<open>
  A request, by what the verifier reads of it: its URL and its header list.
  \<open>headers.get(name)\<close> compares names without regard to ASCII case and joins the
  values of a repeated header with a comma and a space.
\<close>

record request =
  url :: string
  headers :: "(string \<times> string) list"

definition ascii_lower :: "char \<Rightarrow> char" where
  "ascii_lower c =
     (let n = (of_char c :: nat) in if 65 \<le> n \<and> n \<le> 90 then char_of (n + 32) else c)"

definition headers_get :: "(string \<times> string) list \<Rightarrow> string \<Rightarrow> string option" where
  "headers_get hs name =
     (case map snd (filter (\<lambda>kv. map ascii_lower (fst kv) = map ascii_lower name) hs) of
        [] \<Rightarrow> None
      | v # vs \<Rightarrow> Some (foldl (\<lambda>acc w. acc @ '', '' @ w) v vs))"

text \<open>The process environment and the global debug token.\<close>

record env =
  NODE_ENV :: "string option"
  DEV_AUTH_TOKEN :: "string option"
  SKIP_AUTH :: "string option"
  GOOGLE_CLIENT_ID :: "string option"
  mcpDebugToken :: "string option"

text \<open>
  The identity provider. \<open>verifyIdToken\<close> takes the token and the expected audience
  and either throws an Error object (\<open>None\<close>) or returns a ticket, whose
  \<open>getPayload()\<close> is a payload or \<open>undefined\<close>. \<open>fetchUserInfo\<close> is the request to the
  provider's userinfo endpoint with the token as bearer credential: it throws (\<open>None\<close>)
  or returns a response, whose \<open>json()\<close> is a value or throws (\<open>None\<close>).
\<close>

record TokenPayload =
  payload_sub :: string
  payload_exp :: int
  payload_email :: "string option"
  payload_name :: "string option"
  payload_picture :: "string option"
  payload_email_verified :: "bool option"
  payload_hd :: "string option"
  payload_locale :: "string option"

type_synonym LoginTicket = "TokenPayload option"

record response =
  ok :: bool
  status :: nat
  statusText :: string
  json :: "jsval option"

record provider =
  verifyIdToken :: "string \<Rightarrow> string option \<Rightarrow> LoginTicket option"
  fetchUserInfo :: "string \<Rightarrow> response option"

datatype provider_call =
    VerifyIdToken string "string option"
  | FetchUserInfo string

datatype exn =
    TypeError
  | SyntaxError
  | NetworkError
  | UserInfoApiFailed nat string

datatype 'a completion = Returned 'a | Thrown exn

section \<open>The authorization context\<close>

record AuthInfo =
  token :: string
  scopes :: "string list"
  clientId :: jsval
  expiresAt :: jsval
  extra :: "(string \<times> jsval) list"

definition mcpScopes :: "string list" where
  "mcpScopes = [''read:mcp'', ''write:mcp'', ''mcp:read'', ''mcp:write'', ''mcp:tools'']"

definition opt_str :: "string option \<Rightarrow> jsval" where
  "opt_str s = (case s of None \<Rightarrow> Undefined | Some x \<Rightarrow> Str x)"

definition opt_bool :: "bool option \<Rightarrow> jsval" where
  "opt_bool b = (case b of None \<Rightarrow> Undefined | Some x \<Rightarrow> Bool x)"

definition devAuthInfo :: AuthInfo where
  "devAuthInfo =
     \<lparr>token = ''dev-bypass'', scopes = mcpScopes, clientId = Str ''dev-user'',
      expiresAt = Undefined,
      extra = [(''email'', Str ''dev@example.com''), (''name'', Str ''Development User''),
               (''mcpCompliant'', Str ''2025-06-18'')]\<rparr>"

definition idTokenAuthInfo :: "string \<Rightarrow> TokenPayload \<Rightarrow> string \<Rightarrow> AuthInfo" where
  "idTokenAuthInfo bearerToken payload baseUrl =
     \<lparr>token = bearerToken, scopes = mcpScopes, clientId = Str (payload_sub payload),
      expiresAt = Num (payload_exp payload),
      extra = [(''email'', opt_str (payload_email payload)),
               (''name'', opt_str (payload_name payload)),
               (''picture'', opt_str (payload_picture payload)),
               (''verified'', opt_bool (payload_email_verified payload)),
               (''domain'', opt_str (payload_hd payload)),
               (''locale'', opt_str (payload_locale payload)),
               (''provider'', Str ''google''),
               (''tokenType'', Str ''id_token''),
               (''mcpCompliant'', Str ''2025-06-18''),
               (''audience'', Str baseUrl)]\<rparr>"

text \<open>
  The context built from a userinfo body. The first property read (\<open>userInfo.email\<close>)
  throws a TypeError when the body is \<open>null\<close>.
\<close>

definition userInfoAuthInfo :: "string \<Rightarrow> jsval \<Rightarrow> string \<Rightarrow> string \<Rightarrow> exn + AuthInfo" where
  "userInfoAuthInfo bearerToken userInfo tokenType baseUrl =
     (case get_prop userInfo ''email'' of None \<Rightarrow> Inl TypeError | Some email \<Rightarrow>
     (case get_prop userInfo ''id'' of None \<Rightarrow> Inl TypeError | Some uid \<Rightarrow>
     (case get_prop userInfo ''name'' of None \<Rightarrow> Inl TypeError | Some name \<Rightarrow>
     (case get_prop userInfo ''picture'' of None \<Rightarrow> Inl TypeError | Some picture \<Rightarrow>
     (case get_prop userInfo ''verified_email'' of None \<Rightarrow> Inl TypeError | Some verified \<Rightarrow>
     (case get_prop userInfo ''locale'' of None \<Rightarrow> Inl TypeError | Some locale \<Rightarrow>
        Inr \<lparr>token = bearerToken, scopes = mcpScopes, clientId = uid,
             expiresAt = Undefined,
             extra = [(''email'', email), (''name'', name), (''picture'', picture),
                      (''verified'', verified), (''locale'', locale),
                      (''provider'', Str ''google''),
                      (''tokenType'', Str tokenType),
                      (''mcpCompliant'', Str ''2025-06-18''),
                      (''audience'', Str baseUrl)]\<rparr>))))))"

section \<open>Token verification\<close>

subsection \<open>Header extraction\<close>

definition authHeaders :: "string list" where
  "authHeaders =
     [''authorization'', ''Authorization'', ''bearer'', ''Bearer'', ''x-auth-token'',
      ''x-authorization'']"

text \<open>The two prefix tests on a header value, in the order of the source.\<close>

definition bearerValue :: "string \<Rightarrow> string option" where
  "bearerValue v =
     (if startsWith v ''Bearer '' then Some (substring_from 7 v)
      else if startsWith v ''bearer '' then Some (substring_from 7 v)
      else None)"

text \<open>The loop over the header names: the first header whose value is non-empty and
  has one of the two prefixes ends the loop; \<open>None\<close> when the loop ends without it.\<close>

fun scanHeaders :: "request \<Rightarrow> string list \<Rightarrow> string option" where
  "scanHeaders req [] = None"
| "scanHeaders req (header # rest) =
     (case headers_get (headers req) header of
        None \<Rightarrow> scanHeaders req rest
      | Some v \<Rightarrow>
          if v \<noteq> [] then
            (case bearerValue v of
               Some t \<Rightarrow> Some t
             | None \<Rightarrow> scanHeaders req rest)
          else scanHeaders req rest)"

definition extractToken :: "request \<Rightarrow> string option \<Rightarrow> string option" where
  "extractToken req bearerToken =
     (if \<not> truthy bearerToken then
        (case scanHeaders req authHeaders of
           Some t \<Rightarrow> Some t
         | None \<Rightarrow> bearerToken)
      else bearerToken)"

subsection \<open>Development bypasses\<close>

text \<open>\<open>Inl\<close> is the early return of the bypass context; \<open>Inr\<close> carries the token on.\<close>

definition devBypass :: "env \<Rightarrow> string option \<Rightarrow> AuthInfo + string option" where
  "devBypass e bearerToken =
     (if \<not> truthy bearerToken \<and> NODE_ENV e = Some ''development'' then
        (let t1 = (if truthy (DEV_AUTH_TOKEN e) then DEV_AUTH_TOKEN e else bearerToken);
             t2 = (if \<not> truthy t1 \<and> truthy (mcpDebugToken e) then mcpDebugToken e else t1)
         in if SKIP_AUTH e = Some ''true'' then Inl devAuthInfo else Inr t2)
      else Inr bearerToken)"

subsection \<open>The guarded block\<close>

text \<open>
  The body of the outer \<open>try\<close>: the result is an exception raised inside it or the
  value it returns, with the provider calls made, in order. The manual decoding of the
  token's header and payload is inside a \<open>try\<close> of its own whose handler only logs, and
  is left out.
\<close>

definition userInfoFallback ::
  "provider \<Rightarrow> string \<Rightarrow> string \<Rightarrow> exn + AuthInfo option" where
  "userInfoFallback prov bearerToken baseUrl =
     (case fetchUserInfo prov bearerToken of
        None \<Rightarrow> Inl NetworkError
      | Some userInfoResponse \<Rightarrow>
          if \<not> ok userInfoResponse then
            Inl (UserInfoApiFailed (status userInfoResponse) (statusText userInfoResponse))
          else
            (case json userInfoResponse of
               None \<Rightarrow> Inl SyntaxError
             | Some userInfo \<Rightarrow>
                 (case userInfoAuthInfo bearerToken userInfo ''access_token_fallback'' baseUrl of
                    Inl ex \<Rightarrow> Inl ex
                  | Inr a \<Rightarrow> Inr (Some a))))"

definition userInfoDirect ::
  "provider \<Rightarrow> string \<Rightarrow> string \<Rightarrow> exn + AuthInfo option" where
  "userInfoDirect prov bearerToken baseUrl =
     (case fetchUserInfo prov bearerToken of
        None \<Rightarrow> Inl NetworkError
      | Some userInfoResponse \<Rightarrow>
          if \<not> ok userInfoResponse then Inr None
          else
            (case json userInfoResponse of
               None \<Rightarrow> Inl SyntaxError
             | Some userInfo \<Rightarrow>
                 (case userInfoAuthInfo bearerToken userInfo ''access_token'' baseUrl of
                    Inl ex \<Rightarrow> Inl ex
                  | Inr a \<Rightarrow> Inr (Some a))))"

definition verifyBody ::
  "provider \<Rightarrow> env \<Rightarrow> string \<Rightarrow> string \<Rightarrow> (exn + AuthInfo option) \<times> provider_call list" where
  "verifyBody prov e bearerToken baseUrl =
     (let tokenSegments = split_on CHR ''.'' bearerToken in
      if length tokenSegments = 3 then
        (case verifyIdToken prov bearerToken (GOOGLE_CLIENT_ID e) of
           Some ticket \<Rightarrow>
             (case ticket of
                None \<Rightarrow> (Inr None, [VerifyIdToken bearerToken (GOOGLE_CLIENT_ID e)])
              | Some payload \<Rightarrow>
                  (Inr (Some (idTokenAuthInfo bearerToken payload baseUrl)),
                   [VerifyIdToken bearerToken (GOOGLE_CLIENT_ID e)]))
         | None \<Rightarrow>
             (userInfoFallback prov bearerToken baseUrl,
              [VerifyIdToken bearerToken (GOOGLE_CLIENT_ID e), FetchUserInfo bearerToken]))
      else if startsWith bearerToken ''ya29.'' then
        (userInfoDirect prov bearerToken baseUrl, [FetchUserInfo bearerToken])
      else (Inr None, []))"

subsection \<open>verifyGoogleToken\<close>

text \<open>
  The result of a call and the provider calls it made. The request URL is parsed before
  the guarded block; the audience check that follows it only selects a log line. An
  exception of the guarded block is caught and the call returns \<open>undefined\<close>.
\<close>

definition verifyGoogleToken ::
  "url_parser \<Rightarrow> provider \<Rightarrow> env \<Rightarrow> request \<Rightarrow> string option
     \<Rightarrow> AuthInfo option completion \<times> provider_call list" where
  "verifyGoogleToken parse prov e req bearerToken0 =
     (case devBypass e (extractToken req bearerToken0) of
        Inl bypass \<Rightarrow> (Returned (Some bypass), [])
      | Inr bearerToken \<Rightarrow>
          (case bearerToken of
             None \<Rightarrow> (Returned None, [])
           | Some t \<Rightarrow>
               if t = [] then (Returned None, [])
               else
                 (case parse (url req) of
                    None \<Rightarrow> (Thrown TypeError, [])
                  | Some u \<Rightarrow>
                      (case verifyBody prov e t (origin parse u) of
                         (Inl ex, calls) \<Rightarrow> (Returned None, calls)
                       | (Inr r, calls) \<Rightarrow> (Returned r, calls)))))"

section \<open>Predicates of the specification\<close>

datatype TokenShape = SignedIdentityToken | OpaqueAccessToken | Unrecognized

text \<open>The classification in the words of the specification: three segments, none of
  them empty; else the reserved prefix; else unrecognized.\<close>

definition classify_spec :: "string \<Rightarrow> TokenShape" where
  "classify_spec t =
     (let segs = split_on CHR ''.'' t in
      if length segs = 3 \<and> [] \<notin> set segs then SignedIdentityToken
      else if startsWith t ''ya29.'' then OpaqueAccessToken
      else Unrecognized)"

text \<open>A successful verification by the provider, for a token: the signed-token
  verification returned a payload, or the userinfo lookup returned a success status
  and a body that parses.\<close>

definition id_token_verified :: "provider \<Rightarrow> env \<Rightarrow> string \<Rightarrow> bool" where
  "id_token_verified prov e t =
     (case verifyIdToken prov t (GOOGLE_CLIENT_ID e) of
        Some (Some payload) \<Rightarrow> True
      | _ \<Rightarrow> False)"

definition userinfo_verified :: "provider \<Rightarrow> string \<Rightarrow> bool" where
  "userinfo_verified prov t =
     (case fetchUserInfo prov t of
        None \<Rightarrow> False
      | Some r \<Rightarrow> ok r \<and> json r \<noteq> None)"

text \<open>The development bypass applies: no token was passed or found in the headers, the
  process runs in development mode, and skipping is switched on.\<close>

definition bypass_applies :: "env \<Rightarrow> request \<Rightarrow> string option \<Rightarrow> bool" where
  "bypass_applies e req bearerToken =
     (\<not> truthy (extractToken req bearerToken) \<and> NODE_ENV e = Some ''development''
      \<and> SKIP_AUTH e = Some ''true'')"

text \<open>The token that reaches the verification: the one passed or found in the headers,
  or, in development mode without one, the configured or injected development token;
  none when the bypass returns.\<close>

definition effectiveToken :: "env \<Rightarrow> request \<Rightarrow> string option \<Rightarrow> string option" where
  "effectiveToken e req bearerToken =
     (case devBypass e (extractToken req bearerToken) of
        Inl bypass \<Rightarrow> None
      | Inr t \<Rightarrow> t)"

text \<open>The userinfo lookup fails for a token: the request throws, the status is not a
  success, the body does not parse, or the body is \<open>null\<close>.\<close>

definition userinfo_fails :: "provider \<Rightarrow> string \<Rightarrow> bool" where
  "userinfo_fails prov t =
     (case fetchUserInfo prov t of
        None \<Rightarrow> True
      | Some r \<Rightarrow>
          \<not> ok r \<or> (case json r of None \<Rightarrow> True | Some v \<Rightarrow> v = Null \<or> v = Undefined))"

text \<open>A header value with one of the two prefixes the extraction tests for, and a
  header value with the prefix in any case.\<close>

definition bearer_prefixed :: "string \<Rightarrow> bool" where
  "bearer_prefixed v = (startsWith v ''Bearer '' \<or> startsWith v ''bearer '')"

definition bearer_prefixed_any_case :: "string \<Rightarrow> bool" where
  "bearer_prefixed_any_case v = (map ascii_lower (take 7 v) = ''bearer '')"

text \<open>The first header name of a list whose value has one of the two prefixes.\<close>

definition first_bearer_header :: "request \<Rightarrow> string list \<Rightarrow> string option" where
  "first_bearer_header req names =
     (case filter (\<lambda>h. case headers_get (headers req) h of
                          None \<Rightarrow> False
                        | Some v \<Rightarrow> bearer_prefixed v) names of
        [] \<Rightarrow> None
      | h # _ \<Rightarrow> Some h)"

text \<open>The middle segment decodes: base64 decoding succeeds and the result parses.\<close>

definition payload_decodes :: "json_parser \<Rightarrow> string \<Rightarrow> bool" where
  "payload_decodes parse seg =
     (case atob seg of None \<Rightarrow> False | Some decoded \<Rightarrow> parse decoded \<noteq> None)"

text \<open>Two strings parse as URLs with the same scheme, host and port.\<close>

definition same_scheme_host_port :: "url_parser \<Rightarrow> string \<Rightarrow> string \<Rightarrow> bool" where
  "same_scheme_host_port parse r s =
     (case parse r of
        None \<Rightarrow> False
      | Some u \<Rightarrow>
          (case parse s of
             None \<Rightarrow> False
           | Some v \<Rightarrow> protocol u = protocol v \<and> host u = host v))"

text \<open>The challenge the specification derives from a verifier.\<close>

definition pkce_challenge :: "string \<Rightarrow> string" where
  "pkce_challenge codeVerifier = base64url (sha256 (utf8_encode codeVerifier))"

section \<open>Sample inputs\<close>

text \<open>The URL constructor and \<open>JSON.parse\<close>, tabulated at the strings used below; every
  other string is taken not to parse.\<close>

definition URL_samples :: url_parser where
  "URL_samples = map_of
     [(''https://api.example.com/x'',
         \<lparr>protocol = ''https:'', host = ''api.example.com'', pathname = ''/x''\<rparr>),
      (''https://api.example.com'',
         \<lparr>protocol = ''https:'', host = ''api.example.com'', pathname = ''/''\<rparr>),
      (''https://evil.com'',
         \<lparr>protocol = ''https:'', host = ''evil.com'', pathname = ''/''\<rparr>),
      (''https://mcp.example.com/api/mcp'',
         \<lparr>protocol = ''https:'', host = ''mcp.example.com'', pathname = ''/api/mcp''\<rparr>),
      (''mailto:a@example.com'',
         \<lparr>protocol = ''mailto:'', host = [], pathname = ''a@example.com''\<rparr>),
      (''app://evil.example/x'',
         \<lparr>protocol = ''app:'', host = ''evil.example'', pathname = ''/x''\<rparr>)]"

definition JSON_samples :: json_parser where
  \<open>JSON_samples = map_of
     [(''{"aud":"https://mcp.example.com"}'', Obj [(''aud'', Str ''https://mcp.example.com'')]),
      (''null'', Null)]\<close>

definition sample_payload :: TokenPayload where
  "sample_payload =
     \<lparr>payload_sub = ''123'', payload_exp = 1900000000, payload_email = Some ''a@b.com'',
      payload_name = None, payload_picture = None, payload_email_verified = Some True,
      payload_hd = None, payload_locale = None\<rparr>"

definition ok_response :: response where
  "ok_response =
     \<lparr>ok = True, status = 200, statusText = ''OK'',
      json = Some (Obj [(''id'', Str ''123''), (''email'', Str ''a@b.com'')])\<rparr>"

definition unauthorized_response :: response where
  "unauthorized_response =
     \<lparr>ok = False, status = 401, statusText = ''Unauthorized'', json = Some (Obj [])\<rparr>"

text \<open>A provider that accepts one signed token and two access tokens, and one that
  rejects every token.\<close>

definition sample_provider :: provider where
  "sample_provider =
     \<lparr>verifyIdToken =
        (\<lambda>t aud. if t = ''hdr.claims.sig'' then Some (Some sample_payload) else None),
      fetchUserInfo =
        (\<lambda>t. if t = ''ya29.sampletoken'' \<or> t = ''ya29.a.b'' then Some ok_response
              else Some unauthorized_response)\<rparr>"

definition rejecting_provider :: provider where
  "rejecting_provider =
     \<lparr>verifyIdToken = (\<lambda>t aud. None), fetchUserInfo = (\<lambda>t. Some unauthorized_response)\<rparr>"


definition production_env :: env where
  "production_env =
     \<lparr>NODE_ENV = Some ''production'', DEV_AUTH_TOKEN = None, SKIP_AUTH = None,
      GOOGLE_CLIENT_ID = Some ''client-id'', mcpDebugToken = None\<rparr>"

definition dev_skip_env :: env where
  "dev_skip_env =
     \<lparr>NODE_ENV = Some ''development'', DEV_AUTH_TOKEN = None, SKIP_AUTH = Some ''true'',
      GOOGLE_CLIENT_ID = Some ''client-id'', mcpDebugToken = None\<rparr>"

definition bare_request :: request where
  "bare_request = \<lparr>url = ''https://mcp.example.com/api/mcp'', headers = []\<rparr>"

definition two_header_request :: request where
  "two_header_request =
     \<lparr>url = ''https://mcp.example.com/api/mcp'',
      headers = [(''X-Auth-Token'', ''Bearer ya29.other''),
                 (''Authorization'', ''bearer ya29.sampletoken'')]\<rparr>"

definition upper_case_request :: request where
  "upper_case_request =
     \<lparr>url = ''https://mcp.example.com/api/mcp'',
      headers = [(''authorization'', ''BEARER ya29.sampletoken'')]\<rparr>"

section \<open>Auxiliary facts\<close>

subsection \<open>Origins\<close>

lemma tuple_origin_inj:
  assumes "protocol u \<in> set tuple_schemes" "protocol v \<in> set tuple_schemes"
  shows "protocol u @ ''//'' @ host u = protocol v @ ''//'' @ host v
         \<longleftrightarrow> protocol u = protocol v \<and> host u = host v"
  using assms
  apply (simp add: tuple_schemes_def)
  apply (elim disjE; simp)
  done

lemma origin_tuple:
  "protocol u \<in> set tuple_schemes \<Longrightarrow> origin parse u = protocol u @ ''//'' @ host u"
  by (simp add: origin_def)

lemma origin_opaque:
  "protocol u \<notin> set tuple_schemes \<Longrightarrow> protocol u \<noteq> ''blob:'' \<Longrightarrow> origin parse u = ''null''"
  by (simp add: origin_def)

subsection \<open>Header extraction\<close>

lemma bearer_prefixed_nonempty: "bearer_prefixed v \<Longrightarrow> v \<noteq> []"
  by (auto simp: bearer_prefixed_def startsWith_def)

lemma bearerValue_prefixed:
  "bearerValue v = (if bearer_prefixed v then Some (substring_from 7 v) else None)"
  by (simp add: bearerValue_def bearer_prefixed_def)

lemma scanHeaders_step:
  "scanHeaders req (h # rest) =
     (case headers_get (headers req) h of
        None \<Rightarrow> scanHeaders req rest
      | Some v \<Rightarrow> if bearer_prefixed v then Some (substring_from 7 v) else scanHeaders req rest)"
  using bearer_prefixed_nonempty by (auto simp: bearerValue_prefixed split: option.splits)

lemma extractToken_truthy: "truthy bearerToken \<Longrightarrow> extractToken req bearerToken = bearerToken"
  by (simp add: extractToken_def)

subsection \<open>The bypass and the guarded block\<close>

lemma devBypass_Inl:
  "devBypass e bearerToken = Inl a \<Longrightarrow>
     \<not> truthy bearerToken \<and> NODE_ENV e = Some ''development'' \<and> SKIP_AUTH e = Some ''true''
     \<and> a = devAuthInfo"
  by (auto simp: devBypass_def Let_def split: if_splits)

lemma devBypass_truthy: "truthy bearerToken \<Longrightarrow> devBypass e bearerToken = Inr bearerToken"
  by (simp add: devBypass_def)

lemma effectiveToken_found:
  "extractToken req bearerToken = Some t \<Longrightarrow> t \<noteq> [] \<Longrightarrow> effectiveToken e req bearerToken = Some t"
  by (simp add: effectiveToken_def devBypass_truthy truthy_def)

lemma verifyGoogleToken_effective:
  assumes "effectiveToken e req bearerToken = Some t" and "t \<noteq> []"
  shows "verifyGoogleToken parse prov e req bearerToken =
           (case parse (url req) of
              None \<Rightarrow> (Thrown TypeError, [])
            | Some u \<Rightarrow>
                (case verifyBody prov e t (origin parse u) of
                   (Inl ex, calls) \<Rightarrow> (Returned None, calls)
                 | (Inr r, calls) \<Rightarrow> (Returned r, calls)))"
proof -
  from assms(1) have "devBypass e (extractToken req bearerToken) = Inr (Some t)"
    by (simp add: effectiveToken_def split: sum.splits)
  then show ?thesis
    using assms(2) by (simp add: verifyGoogleToken_def)
qed

lemma userInfoAuthInfo_token:
  "userInfoAuthInfo t userInfo kind b = Inr a \<Longrightarrow> token a = t"
  by (auto simp: userInfoAuthInfo_def split: option.splits)

lemma userInfoAuthInfo_Inl:
  "(\<exists>ex. userInfoAuthInfo t userInfo kind b = Inl ex) \<longleftrightarrow> userInfo = Null \<or> userInfo = Undefined"
  by (cases userInfo) (simp_all add: userInfoAuthInfo_def)

lemma userInfoFallback_Some:
  "userInfoFallback prov t b = Inr (Some a) \<Longrightarrow> token a = t \<and> userinfo_verified prov t"
  by (auto simp: userInfoFallback_def userinfo_verified_def dest: userInfoAuthInfo_token
      split: option.splits if_splits sum.splits)

lemma userInfoDirect_Some:
  "userInfoDirect prov t b = Inr (Some a) \<Longrightarrow> token a = t \<and> userinfo_verified prov t"
  by (auto simp: userInfoDirect_def userinfo_verified_def dest: userInfoAuthInfo_token
      split: option.splits if_splits sum.splits)

lemma verifyBody_Some:
  assumes "verifyBody prov e t b = (Inr (Some a), calls)"
  shows "token a = t \<and>
         ((id_token_verified prov e t \<and> VerifyIdToken t (GOOGLE_CLIENT_ID e) \<in> set calls)
          \<or> (userinfo_verified prov t \<and> FetchUserInfo t \<in> set calls))"
  using assms
  by (auto simp: verifyBody_def Let_def id_token_verified_def idTokenAuthInfo_def
      dest: userInfoFallback_Some userInfoDirect_Some split: if_splits option.splits)

lemma userInfoFallback_None_iff:
  "userInfoFallback prov t b \<noteq> Inr None"
  by (auto simp: userInfoFallback_def split: option.splits sum.splits)

lemma userInfoFallback_fails_iff:
  "(\<exists>ex. userInfoFallback prov t b = Inl ex) \<longleftrightarrow> userinfo_fails prov t"
proof (cases "fetchUserInfo prov t")
  case None
  then show ?thesis by (simp add: userInfoFallback_def userinfo_fails_def)
next
  case (Some r)
  show ?thesis
  proof (cases "json r")
    case None
    with Some show ?thesis by (simp add: userInfoFallback_def userinfo_fails_def)
  next
    case (Some v)
    have "(\<exists>ex. (case userInfoAuthInfo t v ''access_token_fallback'' b of
                   Inl ex \<Rightarrow> Inl ex | Inr a \<Rightarrow> Inr (Some a)) = Inl ex)
          \<longleftrightarrow> (\<exists>ex. userInfoAuthInfo t v ''access_token_fallback'' b = Inl ex)"
      by (cases "userInfoAuthInfo t v ''access_token_fallback'' b") simp_all
    then show ?thesis
      using \<open>fetchUserInfo prov t = Some r\<close> Some
      by (simp add: userInfoFallback_def userinfo_fails_def userInfoAuthInfo_Inl)
  qed
qed

text \<open>
  The request URL is parsed before the guarded block. The \<open>url\<close> of a request is an
  absolute URL in serialised form, which the URL constructor parses; only with a string
  that does not parse would the call throw. A call whose request URL parses returns.
\<close>

lemma verifyGoogleToken_Thrown_iff:
  "fst (verifyGoogleToken parse prov e req bearerToken) = Thrown ex \<longleftrightarrow>
     ex = TypeError \<and> parse (url req) = None
     \<and> (\<exists>t. effectiveToken e req bearerToken = Some t \<and> t \<noteq> [])"
  by (auto simp: verifyGoogleToken_def effectiveToken_def
      split: sum.splits option.splits prod.splits)


subsection \<open>Runs on the sample inputs\<close>

text \<open>
  The access token \<open>ya29.sampletoken\<close>, for which the userinfo lookup answers with status
  200 and the body \<open>{id: "123", email: "a@b.com"}\<close>: the context has the subject 123,
  the email address of the body and no expiry.
\<close>

lemma sample_access_run:
  "verifyGoogleToken URL_samples sample_provider production_env bare_request (Some ''ya29.sampletoken'')
     = (Returned (Some (\<lparr>token = ''ya29.sampletoken'', scopes = mcpScopes, clientId = Str ''123'',
          expiresAt = Undefined,
          extra = [(''email'', Str ''a@b.com''), (''name'', Undefined), (''picture'', Undefined),
                   (''verified'', Undefined), (''locale'', Undefined),
                   (''provider'', Str ''google''), (''tokenType'', Str ''access_token''),
                   (''mcpCompliant'', Str ''2025-06-18''),
                   (''audience'', Str ''https://mcp.example.com'')]\<rparr>)),
        [FetchUserInfo ''ya29.sampletoken''])"
  by (simp add: verifyGoogleToken_def devBypass_def extractToken_def truthy_def
      bare_request_def production_env_def URL_samples_def origin_def tuple_schemes_def
      verifyBody_def userInfoDirect_def userInfoAuthInfo_def sample_provider_def
      ok_response_def startsWith_def)

subsection \<open>The challenge of the empty verifier\<close>

text \<open>
  The SHA-256 digest of the empty message, in base64url without padding.
\<close>

lemma pkce_challenge_empty:
  "pkce_challenge [] = ''47DEQpj8HBSa-_TImW-5JCeuQeRkm5NMpJWZG3hSuFU''"
  by code_simp

lemma verifyPKCE_empty_verifier:
  "verifyPKCE ''47DEQpj8HBSa-_TImW-5JCeuQeRkm5NMpJWZG3hSuFU'' []"
  using pkce_challenge_empty
  by (simp add: verifyPKCE_def pkce_challenge_def digest_base64url_def hash_update_def
      createHash_sha256_def)

section \<open>Claims\<close>

subsection \<open>C1: a context needs a verification by the provider\<close>

text \<open>
  C1, as stated: a context is returned only when the signed-token verification or the
  userinfo lookup of the provider has succeeded. This fails in development mode: with
  no token in the call or the headers, \<open>NODE_ENV = development\<close> and
  \<open>SKIP_AUTH = true\<close>, the fixed bypass context is returned, here with a provider that
  rejects every token and without any call to it.
\<close>

theorem bypass_counterexample:
  "fst (verifyGoogleToken URL_samples rejecting_provider dev_skip_env bare_request None)
     = Returned (Some devAuthInfo)
   \<and> snd (verifyGoogleToken URL_samples rejecting_provider dev_skip_env bare_request None) = []
   \<and> \<not> id_token_verified rejecting_provider dev_skip_env (token devAuthInfo)
   \<and> \<not> userinfo_verified rejecting_provider (token devAuthInfo)"
  by (simp add: verifyGoogleToken_def devBypass_def extractToken_def truthy_def
      authHeaders_def headers_get_def bare_request_def dev_skip_env_def
      id_token_verified_def userinfo_verified_def rejecting_provider_def
      unauthorized_response_def)

text \<open>
  C1, amended: whenever a context is returned, either the development bypass applies
  (no token passed or found in the headers, development mode, skipping switched on),
  the context is the fixed bypass context and no provider call was made; or the
  signed-token verification of the returned token succeeded and was called; or the
  userinfo lookup of the returned token succeeded and was called.
\<close>

theorem context_only_after_verification_or_bypass:
  assumes "verifyGoogleToken parse prov e req bearerToken = (Returned (Some a), calls)"
  shows "(bypass_applies e req bearerToken \<and> a = devAuthInfo \<and> calls = [])
         \<or> (id_token_verified prov e (token a)
             \<and> VerifyIdToken (token a) (GOOGLE_CLIENT_ID e) \<in> set calls)
         \<or> (userinfo_verified prov (token a) \<and> FetchUserInfo (token a) \<in> set calls)"
proof (cases "devBypass e (extractToken req bearerToken)")
  case (Inl bypass)
  from devBypass_Inl [OF Inl] have "bypass_applies e req bearerToken" and "bypass = devAuthInfo"
    by (simp_all add: bypass_applies_def)
  moreover from assms Inl have "a = bypass" and "calls = []"
    by (simp_all add: verifyGoogleToken_def)
  ultimately show ?thesis by simp
next
  case (Inr t')
  with assms obtain t u where body: "verifyBody prov e t (origin parse u) = (Inr (Some a), calls)"
    by (auto simp: verifyGoogleToken_def split: option.splits if_splits sum.splits prod.splits)
  from verifyBody_Some [OF body] show ?thesis by auto
qed

theorem context_only_after_verification_or_bypass_witness:
  "verifyGoogleToken URL_samples sample_provider production_env bare_request (Some ''ya29.sampletoken'')
     = (Returned (Some (\<lparr>token = ''ya29.sampletoken'', scopes = mcpScopes, clientId = Str ''123'',
          expiresAt = Undefined,
          extra = [(''email'', Str ''a@b.com''), (''name'', Undefined), (''picture'', Undefined),
                   (''verified'', Undefined), (''locale'', Undefined),
                   (''provider'', Str ''google''), (''tokenType'', Str ''access_token''),
                   (''mcpCompliant'', Str ''2025-06-18''),
                   (''audience'', Str ''https://mcp.example.com'')]\<rparr>)),
        [FetchUserInfo ''ya29.sampletoken''])
   \<and> userinfo_verified sample_provider ''ya29.sampletoken''"
proof -
  note run = sample_access_run
  have nb: "\<not> bypass_applies production_env bare_request (Some ''ya29.sampletoken'')"
    by (simp add: bypass_applies_def production_env_def)
  have ni: "\<not> id_token_verified sample_provider production_env ''ya29.sampletoken''"
    by (simp add: id_token_verified_def sample_provider_def)
  from context_only_after_verification_or_bypass [OF run] nb ni
  have "userinfo_verified sample_provider ''ya29.sampletoken''"
    by simp
  with run show ?thesis by simp
qed

subsection \<open>C2: classification of the token\<close>

text \<open>
  C2, as stated: three non-empty segments select the signed-token path, else the prefix
  \<open>ya29.\<close> selects the userinfo path, else the token is unrecognized and no network call
  is made. The token \<open>a..b\<close> has three segments, one of them empty, and no prefix: the
  statement makes it unrecognized, yet the verifier calls the provider twice for it.
\<close>

theorem empty_segment_counterexample:
  "classify_spec ''a..b'' = Unrecognized
   \<and> snd (verifyGoogleToken URL_samples rejecting_provider production_env bare_request (Some ''a..b''))
       = [VerifyIdToken ''a..b'' (Some ''client-id''), FetchUserInfo ''a..b'']"
  by code_simp

text \<open>
  C2, amended: for a non-empty token and a request URL that parses, a token with exactly
  three segments (empty ones included) is first given to the signed-token verification;
  any other token that starts with \<open>ya29.\<close> is given to the userinfo lookup, once, and to
  nothing else; every other token yields an absent result without any provider call.
\<close>

theorem dispatch_by_segments_and_prefix:
  assumes "effectiveToken e req bearerToken = Some t" and "t \<noteq> []"
    and "parse (url req) = Some u"
  shows "(length (split_on CHR ''.'' t) = 3 \<longrightarrow>
            take 1 (snd (verifyGoogleToken parse prov e req bearerToken))
              = [VerifyIdToken t (GOOGLE_CLIENT_ID e)])
         \<and> (length (split_on CHR ''.'' t) \<noteq> 3 \<and> startsWith t ''ya29.'' \<longrightarrow>
              snd (verifyGoogleToken parse prov e req bearerToken) = [FetchUserInfo t])
         \<and> (length (split_on CHR ''.'' t) \<noteq> 3 \<and> \<not> startsWith t ''ya29.'' \<longrightarrow>
              verifyGoogleToken parse prov e req bearerToken = (Returned None, []))"
  using assms(3)
  by (auto simp: verifyGoogleToken_effective [OF assms(1,2)] verifyBody_def Let_def
      split: option.splits sum.splits prod.splits)

theorem dispatch_by_segments_and_prefix_witness:
  "take 1 (snd (verifyGoogleToken URL_samples sample_provider production_env bare_request
                  (Some ''hdr.claims.sig'')))
     = [VerifyIdToken ''hdr.claims.sig'' (Some ''client-id'')]
   \<and> snd (verifyGoogleToken URL_samples sample_provider production_env bare_request
            (Some ''ya29.sampletoken'')) = [FetchUserInfo ''ya29.sampletoken'']
   \<and> verifyGoogleToken URL_samples sample_provider production_env bare_request
         (Some ''opaque-token'') = (Returned None, [])"
proof -
  let ?u = "\<lparr>protocol = ''https:'', host = ''mcp.example.com'', pathname = ''/api/mcp''\<rparr>"
  have u: "URL_samples (url bare_request) = Some ?u"
    by (simp add: URL_samples_def bare_request_def)
  have cid: "GOOGLE_CLIENT_ID production_env = Some ''client-id''"
    by (simp add: production_env_def)
  have x: "effectiveToken production_env bare_request (Some s) = Some s" if "s \<noteq> []" for s
    using that by (simp add: effectiveToken_found extractToken_def truthy_def)
  have j: "length (split_on CHR ''.'' ''hdr.claims.sig'') = 3" by simp
  have a: "length (split_on CHR ''.'' ''ya29.sampletoken'') \<noteq> 3
           \<and> startsWith ''ya29.sampletoken'' ''ya29.''"
    by (simp add: startsWith_def)
  have o: "length (split_on CHR ''.'' ''opaque-token'') \<noteq> 3
           \<and> \<not> startsWith ''opaque-token'' ''ya29.''"
    by (simp add: startsWith_def)
  have 1: "take 1 (snd (verifyGoogleToken URL_samples sample_provider production_env bare_request
                  (Some ''hdr.claims.sig''))) = [VerifyIdToken ''hdr.claims.sig'' (Some ''client-id'')]"
    using dispatch_by_segments_and_prefix
            [where req = bare_request and bearerToken = "Some ''hdr.claims.sig''"
               and t = "''hdr.claims.sig''" and parse = URL_samples and u = ?u
               and prov = sample_provider and e = production_env]
          x u j cid
    by simp
  have 2: "snd (verifyGoogleToken URL_samples sample_provider production_env bare_request
            (Some ''ya29.sampletoken'')) = [FetchUserInfo ''ya29.sampletoken'']"
    using dispatch_by_segments_and_prefix
            [where req = bare_request and bearerToken = "Some ''ya29.sampletoken''"
               and t = "''ya29.sampletoken''" and parse = URL_samples and u = ?u
               and prov = sample_provider and e = production_env]
          x u a
    by simp
  have 3: "verifyGoogleToken URL_samples sample_provider production_env bare_request
         (Some ''opaque-token'') = (Returned None, [])"
    using dispatch_by_segments_and_prefix
            [where req = bare_request and bearerToken = "Some ''opaque-token''"
               and t = "''opaque-token''" and parse = URL_samples and u = ?u
               and prov = sample_provider and e = production_env]
          x u o
    by simp
  from 1 2 3 show ?thesis by simp
qed

subsection \<open>C3: no exception escapes\<close>



subsection \<open>C4: one fallback to the userinfo lookup\<close>

text \<open>
  C4: for a non-empty token with three segments whose signed-token verification throws
  (and a request URL that parses), the provider calls are the signed-token verification
  followed by exactly one userinfo lookup with the same token; the call returns, and its
  result is absent if and only if that lookup fails.
\<close>

theorem fallback_exactly_once:
  assumes "effectiveToken e req bearerToken = Some t" and "t \<noteq> []"
    and "parse (url req) = Some u"
    and "length (split_on CHR ''.'' t) = 3"
    and "verifyIdToken prov t (GOOGLE_CLIENT_ID e) = None"
  shows "snd (verifyGoogleToken parse prov e req bearerToken)
           = [VerifyIdToken t (GOOGLE_CLIENT_ID e), FetchUserInfo t]
         \<and> (\<exists>r. fst (verifyGoogleToken parse prov e req bearerToken) = Returned r)
         \<and> (fst (verifyGoogleToken parse prov e req bearerToken) = Returned None
              \<longleftrightarrow> userinfo_fails prov t)"
proof -
  let ?fb = "userInfoFallback prov t (origin parse u)"
  have run: "verifyGoogleToken parse prov e req bearerToken =
               (case ?fb of Inl ex \<Rightarrow> Returned None | Inr r \<Rightarrow> Returned r,
                [VerifyIdToken t (GOOGLE_CLIENT_ID e), FetchUserInfo t])"
    using assms(3-5)
    by (simp add: verifyGoogleToken_effective [OF assms(1,2)] verifyBody_def split: sum.splits)
  have fails: "(\<exists>ex. ?fb = Inl ex) \<longleftrightarrow> userinfo_fails prov t"
    by (rule userInfoFallback_fails_iff)
  have notnone: "?fb \<noteq> Inr None"
    by (rule userInfoFallback_None_iff)
  show ?thesis
  proof (cases ?fb)
    case (Inl ex)
    with run fails show ?thesis by auto
  next
    case (Inr r)
    with run fails notnone show ?thesis by auto
  qed
qed

theorem fallback_exactly_once_witness:
  "effectiveToken production_env bare_request (Some ''ya29.a.b'') = Some ''ya29.a.b''
   \<and> length (split_on CHR ''.'' ''ya29.a.b'') = 3
   \<and> verifyIdToken sample_provider ''ya29.a.b'' (GOOGLE_CLIENT_ID production_env) = None
   \<and> snd (verifyGoogleToken URL_samples sample_provider production_env bare_request
            (Some ''ya29.a.b''))
       = [VerifyIdToken ''ya29.a.b'' (Some ''client-id''), FetchUserInfo ''ya29.a.b'']
   \<and> \<not> userinfo_fails sample_provider ''ya29.a.b''
   \<and> fst (verifyGoogleToken URL_samples sample_provider production_env bare_request
            (Some ''ya29.a.b'')) \<noteq> Returned None"
proof -
  let ?u = "\<lparr>protocol = ''https:'', host = ''mcp.example.com'', pathname = ''/api/mcp''\<rparr>"
  have x: "effectiveToken production_env bare_request (Some ''ya29.a.b'') = Some ''ya29.a.b''"
    by (simp add: effectiveToken_found extractToken_def truthy_def)
  have u: "URL_samples (url bare_request) = Some ?u"
    by (simp add: URL_samples_def bare_request_def)
  have l: "length (split_on CHR ''.'' ''ya29.a.b'') = 3" by simp
  have v: "verifyIdToken sample_provider ''ya29.a.b'' (GOOGLE_CLIENT_ID production_env) = None"
    by (simp add: sample_provider_def)
  have cid: "GOOGLE_CLIENT_ID production_env = Some ''client-id''"
    by (simp add: production_env_def)
  have nf: "\<not> userinfo_fails sample_provider ''ya29.a.b''"
    by (simp add: userinfo_fails_def sample_provider_def ok_response_def)
  show ?thesis
    using fallback_exactly_once
            [where req = bare_request and bearerToken = "Some ''ya29.a.b''"
               and t = "''ya29.a.b''" and parse = URL_samples and u = ?u
               and prov = sample_provider and e = production_env]
          x u l v cid nf
    by simp
qed

subsection \<open>C5: audience validation passes tokens that are not JWTs\<close>

text \<open>
  C5: a token that does not split at the dots into exactly three segments passes the
  audience validation, for every expected audience.
\<close>

theorem validateTokenAudience_non_jwt:
  "length (split_on CHR ''.'' tok) \<noteq> 3 \<Longrightarrow> validateTokenAudience parse tok aud"
  by (simp add: validateTokenAudience_def)

theorem validateTokenAudience_non_jwt_witness:
  "length (split_on CHR ''.'' ''ya29.sampletoken'') \<noteq> 3
   \<and> validateTokenAudience JSON_samples ''ya29.sampletoken'' ''https://mcp.example.com''"
  using validateTokenAudience_non_jwt [of "''ya29.sampletoken''" JSON_samples "''https://mcp.example.com''"]
  by simp

subsection \<open>C6: PKCE\<close>

text \<open>
  C6: \<open>verifyPKCE\<close> holds if and only if the challenge is the unpadded base64url
  encoding of the SHA-256 digest of the verifier, for all strings, the empty verifier
  included.
\<close>

theorem verifyPKCE_iff:
  "verifyPKCE codeChallenge codeVerifier \<longleftrightarrow> codeChallenge = pkce_challenge codeVerifier"
  by (simp add: verifyPKCE_def pkce_challenge_def digest_base64url_def hash_update_def
      createHash_sha256_def)

subsection \<open>C7: resource parameter validation\<close>

text \<open>
  C7, as stated: the result is true if and only if both strings parse and have the same
  scheme, host and port. The URLs \<open>app://evil.example/x\<close> and \<open>mailto:a@example.com\<close>
  differ in scheme and host; both have an opaque origin, which the \<open>origin\<close> getter
  writes as \<open>null\<close>, and the validation accepts the pair.
\<close>

theorem opaque_origin_counterexample:
  "validateResourceParameter URL_samples ''app://evil.example/x'' ''mailto:a@example.com''
   \<and> \<not> same_scheme_host_port URL_samples ''app://evil.example/x'' ''mailto:a@example.com''"
  by (simp add: validateResourceParameter_def same_scheme_host_port_def URL_samples_def
      origin_def tuple_schemes_def)

text \<open>
  C7, amended: the result is false whenever one of the strings does not parse. When both
  parse, the result is true if and only if the \<open>origin\<close> strings of the two URLs are
  equal: for two URLs with the schemes http, https, ws, wss or ftp, if and only if scheme
  and host with port are identical; for two URLs with other schemes (blob apart), which
  all have the origin string \<open>null\<close>, always.
\<close>

theorem validateResourceParameter_origin:
  "(parse r = None \<or> parse s = None \<longrightarrow> \<not> validateResourceParameter parse r s)
   \<and> (parse r = Some u \<and> parse s = Some v \<longrightarrow>
         (validateResourceParameter parse r s \<longleftrightarrow> origin parse u = origin parse v)
         \<and> (protocol u \<in> set tuple_schemes \<and> protocol v \<in> set tuple_schemes \<longrightarrow>
              (validateResourceParameter parse r s
                 \<longleftrightarrow> protocol u = protocol v \<and> host u = host v))
         \<and> (protocol u \<notin> set tuple_schemes \<and> protocol u \<noteq> ''blob:''
              \<and> protocol v \<notin> set tuple_schemes \<and> protocol v \<noteq> ''blob:''
              \<longrightarrow> validateResourceParameter parse r s))"
proof -
  have bad: "parse r = None \<or> parse s = None \<longrightarrow> \<not> validateResourceParameter parse r s"
    by (auto simp: validateResourceParameter_def split: option.splits)
  have good: "validateResourceParameter parse r s \<longleftrightarrow> origin parse u = origin parse v"
    if "parse r = Some u" "parse s = Some v" for u v
    using that by (simp add: validateResourceParameter_def)
  have tup: "validateResourceParameter parse r s \<longleftrightarrow> protocol u = protocol v \<and> host u = host v"
    if "parse r = Some u" "parse s = Some v"
       "protocol u \<in> set tuple_schemes" "protocol v \<in> set tuple_schemes" for u v
    using that good [of u v] tuple_origin_inj [of u v] by (simp add: origin_tuple)
  have opq: "validateResourceParameter parse r s"
    if "parse r = Some u" "parse s = Some v"
       "protocol u \<notin> set tuple_schemes" "protocol u \<noteq> ''blob:''"
       "protocol v \<notin> set tuple_schemes" "protocol v \<noteq> ''blob:''" for u v
    using that good [of u v] by (simp add: origin_opaque)
  show ?thesis
    using bad good tup opq by blast
qed

theorem validateResourceParameter_origin_witness:
  "URL_samples ''not a url'' = None
   \<and> \<not> validateResourceParameter URL_samples ''not a url'' ''https://api.example.com''
   \<and> validateResourceParameter URL_samples ''https://api.example.com/x'' ''https://api.example.com''
   \<and> \<not> validateResourceParameter URL_samples ''https://evil.com'' ''https://api.example.com''
   \<and> validateResourceParameter URL_samples ''app://evil.example/x'' ''mailto:a@example.com''"
proof -
  let ?api = "\<lparr>protocol = ''https:'', host = ''api.example.com'', pathname = ''/''\<rparr>"
  let ?apix = "\<lparr>protocol = ''https:'', host = ''api.example.com'', pathname = ''/x''\<rparr>"
  let ?evil = "\<lparr>protocol = ''https:'', host = ''evil.com'', pathname = ''/''\<rparr>"
  let ?app = "\<lparr>protocol = ''app:'', host = ''evil.example'', pathname = ''/x''\<rparr>"
  let ?mail = "\<lparr>protocol = ''mailto:'', host = [], pathname = ''a@example.com''\<rparr>"
  have bad: "URL_samples ''not a url'' = None"
    by (simp add: URL_samples_def)
  have api: "URL_samples ''https://api.example.com'' = Some ?api"
    and apix: "URL_samples ''https://api.example.com/x'' = Some ?apix"
    and evil: "URL_samples ''https://evil.com'' = Some ?evil"
    and app: "URL_samples ''app://evil.example/x'' = Some ?app"
    and mail: "URL_samples ''mailto:a@example.com'' = Some ?mail"
    by (simp_all add: URL_samples_def)
  have 1: "\<not> validateResourceParameter URL_samples ''not a url'' ''https://api.example.com''"
    using validateResourceParameter_origin
            [of URL_samples "''not a url''" "''https://api.example.com''"] bad
    by simp
  have 2: "validateResourceParameter URL_samples ''https://api.example.com/x'' ''https://api.example.com''"
    using validateResourceParameter_origin
            [of URL_samples "''https://api.example.com/x''" "''https://api.example.com''" ?apix ?api]
          apix api
    by (simp add: tuple_schemes_def origin_def)
  have 3: "\<not> validateResourceParameter URL_samples ''https://evil.com'' ''https://api.example.com''"
    using validateResourceParameter_origin
            [of URL_samples "''https://evil.com''" "''https://api.example.com''" ?evil ?api]
          evil api
    by (simp add: tuple_schemes_def origin_def)
  have 4: "validateResourceParameter URL_samples ''app://evil.example/x'' ''mailto:a@example.com''"
    using validateResourceParameter_origin
            [of URL_samples "''app://evil.example/x''" "''mailto:a@example.com''" ?app ?mail]
          app mail
    by (simp add: tuple_schemes_def origin_def)
  from bad 1 2 3 4 show ?thesis by simp
qed

subsection \<open>C8: the authorization header comes first\<close>

text \<open>
  C8: when no token is passed and both the \<open>authorization\<close> header and the
  \<open>x-auth-token\<close> header carry a value with one of the prefixes \<open>Bearer\<close> and
  \<open>bearer\<close> followed by a space, the extracted token is the rest of the
  \<open>authorization\<close> value.
\<close>

theorem authorization_wins:
  assumes "\<not> truthy bearerToken"
    and "headers_get (headers req) ''authorization'' = Some a"
    and "headers_get (headers req) ''x-auth-token'' = Some x"
    and "bearer_prefixed a" and "bearer_prefixed x"
  shows "extractToken req bearerToken = Some (substring_from 7 a)"
  using assms
  by (simp add: extractToken_def authHeaders_def scanHeaders_step del: scanHeaders.simps)

theorem authorization_wins_witness:
  "\<not> truthy None
   \<and> headers_get (headers two_header_request) ''authorization'' = Some ''bearer ya29.sampletoken''
   \<and> headers_get (headers two_header_request) ''x-auth-token'' = Some ''Bearer ya29.other''
   \<and> bearer_prefixed ''bearer ya29.sampletoken'' \<and> bearer_prefixed ''Bearer ya29.other''
   \<and> extractToken two_header_request None = Some ''ya29.sampletoken''"
proof -
  have t: "\<not> truthy None" by (simp add: truthy_def)
  have a: "headers_get (headers two_header_request) ''authorization'' = Some ''bearer ya29.sampletoken''"
    by code_simp
  have x: "headers_get (headers two_header_request) ''x-auth-token'' = Some ''Bearer ya29.other''"
    by code_simp
  have pa: "bearer_prefixed ''bearer ya29.sampletoken''"
    by (simp add: bearer_prefixed_def startsWith_def)
  have px: "bearer_prefixed ''Bearer ya29.other''"
    by (simp add: bearer_prefixed_def startsWith_def)
  from authorization_wins [OF t a x pa px] t a x pa px show ?thesis
    by (simp add: substring_from_def)
qed

subsection \<open>C9: the prefix of a header value\<close>

text \<open>
  C9, as stated: the prefix is recognized in any case. A request whose only
  authorization header is \<open>BEARER ya29.sampletoken\<close> yields no token.
\<close>

theorem bearer_any_case_counterexample:
  "headers_get (headers upper_case_request) ''authorization'' = Some ''BEARER ya29.sampletoken''
   \<and> bearer_prefixed_any_case ''BEARER ya29.sampletoken''
   \<and> extractToken upper_case_request None = None"
  by code_simp

text \<open>
  C9, amended: the prefix is recognized in the two spellings \<open>Bearer\<close> and \<open>bearer\<close>
  followed by a space, and in no other. The loop returns, for the first listed header
  whose value has one of the two, the value from its eighth character on, and nothing
  when there is no such header.
\<close>

theorem scanHeaders_first_bearer:
  "scanHeaders req names =
     (case first_bearer_header req names of
        None \<Rightarrow> None
      | Some h \<Rightarrow> map_option (substring_from 7) (headers_get (headers req) h))"
proof (induction names)
  case Nil
  show ?case by (simp add: first_bearer_header_def)
next
  case (Cons h rest)
  show ?case
  proof (cases "headers_get (headers req) h")
    case None
    with Cons show ?thesis
      by (simp add: scanHeaders_step first_bearer_header_def del: scanHeaders.simps)
  next
    case (Some v)
    with Cons show ?thesis
      by (simp add: scanHeaders_step first_bearer_header_def del: scanHeaders.simps)
  qed
qed

subsection \<open>C10: audience validation rejects a payload that does not decode\<close>

text \<open>
  C10: a token with exactly three segments whose middle segment is not the base64
  encoding of a text that parses as JSON fails the audience validation, for every
  expected audience.
\<close>

theorem validateTokenAudience_undecodable:
  "length (split_on CHR ''.'' tok) = 3
   \<Longrightarrow> \<not> payload_decodes parse (split_on CHR ''.'' tok ! 1)
   \<Longrightarrow> \<not> validateTokenAudience parse tok aud"
  by (auto simp: validateTokenAudience_def payload_decodes_def Let_def split: option.splits)

theorem validateTokenAudience_undecodable_witness:
  "length (split_on CHR ''.'' ''h.YWJj.s'') = 3
   \<and> \<not> payload_decodes JSON_samples (split_on CHR ''.'' ''h.YWJj.s'' ! 1)
   \<and> \<not> validateTokenAudience JSON_samples ''h.YWJj.s'' ''https://mcp.example.com''"
proof -
  have seg: "split_on CHR ''.'' ''h.YWJj.s'' = [''h'', ''YWJj'', ''s'']"
    by simp
  have dec: "atob ''YWJj'' = Some ''abc''"
    by code_simp
  have nd: "\<not> payload_decodes JSON_samples (split_on CHR ''.'' ''h.YWJj.s'' ! 1)"
    by (simp add: seg payload_decodes_def dec JSON_samples_def)
  have len: "length (split_on CHR ''.'' ''h.YWJj.s'') = 3"
    by (simp add: seg)
  from validateTokenAudience_undecodable [OF len nd] len nd show ?thesis
    by blast
qed

end
